theory Spec2Isabelle
  imports Complex_Main
begin

section \<open>The availability request parser of \<open>assignment.py\<close>\<close>

text \<open>
  The class \<open>ParseAvailRequest\<close> reads an availability request (an XML document), checks it
  and answers with a list of priced offers. The model follows the source method by method.
  An exception is a value of type \<open>error\<close>, and a method that can raise returns
  \<open>error + 'a\<close>, with \<open>Inl\<close> for the exception. Only \<open>ValueError\<close> is caught by
  \<open>main\<close>; the other kinds leave \<open>main\<close> as exceptions.
\<close>

subsection \<open>Exceptions and library calls\<close>

datatype error =
    ValueError string
  | AttributeError string
  | NameError string
  | TypeError string

text \<open>
  A \<open>datetime\<close> is the number of microseconds since 0001-01-01 00:00, a \<open>timedelta\<close> a
  number of microseconds. The attribute \<open>days\<close> of a timedelta rounds towards minus
  infinity, as \<open>div\<close> on \<open>int\<close> does.
\<close>

type_synonym datetime = int

definition timedelta_days :: "int \<Rightarrow> int" where
  "timedelta_days n = n * 86400000000"

definition days :: "int \<Rightarrow> int" where
  "days delta = delta div 86400000000"

text \<open>
  The conversions \<open>int(text)\<close> and \<open>datetime.strptime(text, "%d/%m/%Y")\<close> belong to the
  Python library. They are parameters of the model: each returns the value, or \<open>Inl\<close> with
  the message of the \<open>ValueError\<close> that the library raises.
\<close>

record pylib =
  py_int :: "string \<Rightarrow> string + int"
  strptime :: "string \<Rightarrow> string + datetime"

subsection \<open>The constants set by \<open>__init__\<close>\<close>

definition allowed_currencies :: "string set" where
  "allowed_currencies = {''EUR'', ''USD'', ''GBP''}"

definition allowed_nationalities :: "string set" where
  "allowed_nationalities = {''US'', ''GB'', ''CA''}"

definition allowed_market :: "string set" where
  "allowed_market = {''US'', ''GB'', ''CA'', ''ES''}"

definition var_filters_cg :: "string set" where
  "var_filters_cg = {''en'', ''fr'', ''de'', ''es''}"

definition allowed_room_count :: int where
  "allowed_room_count = 5"

definition default_language :: string where
  "default_language = ''en''"

definition default_currency :: string where
  "default_currency = ''EUR''"

definition default_nationality :: string where
  "default_nationality = ''US''"

definition default_market :: string where
  "default_market = ''ES''"

definition allowed_hotel_count :: int where
  "allowed_hotel_count = 10"

text \<open>The attribute \<open>self.options_quota\<close>.\<close>

definition self_options_quota :: int where
  "self_options_quota = 20"

definition max_child_age :: int where
  "max_child_age = 5"

definition allowed_room_guest_count :: int where
  "allowed_room_guest_count = 5"

subsection \<open>The document\<close>

text \<open>
  The document is the result of the lookups that \<open>parse\<close> makes on the element tree.
  \<open>root.find(path)\<close> is \<open>None\<close> when no element matches, else the first match; the
  \<open>text\<close> of an element is \<open>None\<close> when the element is empty. So a looked-up node is a
  \<open>string option option\<close>: \<open>None\<close> for no node, \<open>Some None\<close> for an empty node,
  \<open>Some (Some s)\<close> for a node with text \<open>s\<close>. \<open>root.findall(path)\<close> is a list.
\<close>

type_synonym node = "string option option"

record parameter =
  attr_password :: "string option"
  attr_username :: "string option"
  attr_CompanyID :: "string option"

record request_doc =
  languageCode :: node
  Parameter :: "parameter option"
  SearchType :: node
  AvailDestinations :: "string option list"
  StartDate :: node
  EndDate :: node
  optionsQuota :: node
  Currency :: node
  Nationality :: node
  Market :: node
  Paxes :: "string option list list"

text \<open>
  An entry of \<open>AvailDestinations\<close> is the text of one destination element. A block of
  \<open>Paxes\<close> is the list of its \<open>Pax\<close> elements, each given by its \<open>age\<close> attribute
  (\<open>None\<close> when the attribute is missing).
\<close>

text \<open>
  The dictionary returned by \<open>parse\<close>; the field \<open>data_k\<close> is the entry with key \<open>k\<close>.
\<close>

record avail_data =
  data_language_code :: "string option"
  data_options_quota :: "int option"
  data_password :: "string option"
  data_username :: "string option"
  data_company_id :: "string option"
  data_search_type :: "string option"
  data_start_date :: datetime
  data_end_date :: datetime
  data_currency :: string
  data_nationality :: string
  data_market :: "string option"
  data_avail_destinations :: "string option list"
  data_paxes :: "string option list list"

subsection \<open>Strings\<close>

text \<open>\<open>str(n)\<close> for an integer, as the f-strings use it.\<close>

fun str_nat :: "nat \<Rightarrow> string" where
  "str_nat n =
     (if n < 10 then [char_of (48 + n)]
      else str_nat (n div 10) @ [char_of (48 + n mod 10)])"

declare str_nat.simps [simp del]

definition str_int :: "int \<Rightarrow> string" where
  "str_int i = (if i < 0 then CHR ''-'' # str_nat (nat (- i)) else str_nat (nat i))"

text \<open>\<open>str(x)\<close> for a value that is a string or \<open>None\<close>.\<close>

definition str_opt :: "string option \<Rightarrow> string" where
  "str_opt x = (case x of None \<Rightarrow> ''None'' | Some s \<Rightarrow> s)"

text \<open>The truth value of a string or \<open>None\<close>: false for \<open>None\<close> and for the empty string.\<close>

definition truthy :: "string option \<Rightarrow> bool" where
  "truthy x = (case x of None \<Rightarrow> False | Some s \<Rightarrow> s \<noteq> [])"

subsection \<open>The validation methods\<close>

text \<open>
  In \<open>validate_destination\<close> the message of the second error is an f-string that reads the
  global name \<open>ALLOWED_HOTEL_COUNT\<close>. The module defines no such name, so building the
  message raises \<open>NameError\<close> before the \<open>ValueError\<close> exists.
\<close>

definition validate_destination :: "string option \<Rightarrow> string option list \<Rightarrow> error + unit" where
  "validate_destination search_type avail_destinations =
     (if search_type = Some ''Single'' \<and> int (length avail_destinations) \<noteq> 1
      then Inl (ValueError ''If SearchType is 'Single', there must be exactly one destination.'')
      else if search_type = Some ''Multiple''
              \<and> int (length avail_destinations) > allowed_hotel_count
      then Inl (NameError ''ALLOWED_HOTEL_COUNT'')
      else Inr ())"

definition validate_user ::
    "string option \<Rightarrow> string option \<Rightarrow> string option \<Rightarrow> error + unit" where
  "validate_user password username company_id =
     (if \<not> (truthy password \<and> truthy username \<and> truthy company_id)
      then Inl (ValueError ''Missing required parameters: password, username, or CompanyID.'')
      else Inr ())"

text \<open>
  \<open>validate_date\<close> compares with \<open>datetime.today()\<close>, here the argument \<open>today\<close>.
  No method calls it.
\<close>

definition validate_date :: "datetime \<Rightarrow> datetime \<Rightarrow> datetime \<Rightarrow> error + unit" where
  "validate_date today start_date end_date =
     (if start_date \<le> today + timedelta_days 2
      then Inl (ValueError ''Start date must be at least 2 days after today.'')
      else if days (end_date - start_date) < 3
      then Inl (ValueError ''Stay duration must be at least 3 nights.'')
      else Inr ())"

text \<open>
  \<open>validate_options_quota\<close> replaces a missing or zero quota by the default in its own
  local variable, checks it, and returns nothing.
\<close>

definition validate_options_quota :: "int option \<Rightarrow> error + unit" where
  "validate_options_quota options_quota =
     (let options_quota =
            (case options_quota of
               None \<Rightarrow> self_options_quota
             | Some q \<Rightarrow> if q = 0 then self_options_quota else q)
      in if options_quota > 50
         then Inl (ValueError ''OptionsQuota must be no greater than 50.'')
         else Inr ())"

definition validate_language_code :: "string option \<Rightarrow> error + unit" where
  "validate_language_code language_code =
     (if (case language_code of None \<Rightarrow> True | Some s \<Rightarrow> s \<notin> var_filters_cg)
      then Inl (ValueError (''Invalid language code: '' @ str_opt language_code))
      else Inr ())"

definition validate_room_count :: "int \<Rightarrow> error + unit" where
  "validate_room_count count =
     (if count > allowed_room_count
      then Inl (ValueError (''Number of rooms cannot exceed '' @ str_int allowed_room_count @ ''.''))
      else Inr ())"

subsection \<open>The steps of \<open>parse\<close>\<close>

text \<open>
  \<open>parse\<close> is one method in the source. Its steps are named here in the order in which
  the method runs them; each step returns the local variables it sets, or the exception
  that ends the method. The argument \<open>doc\<close> is the element tree \<open>root\<close>.
\<close>

text \<open>
  Language (lines 83 to 90). Without a \<open>languageCode\<close> node the method reads the global
  name \<open>DEFAULT_LANGUAGE\<close>, which the module does not define.
\<close>

definition extract_language :: "request_doc \<Rightarrow> error + string option" where
  "extract_language doc =
     (case languageCode doc of
        None \<Rightarrow> Inl (NameError ''DEFAULT_LANGUAGE'')
      | Some language_code \<Rightarrow>
          (case validate_language_code language_code of
             Inl e \<Rightarrow> Inl e
           | Inr _ \<Rightarrow> Inr language_code))"

text \<open>User (lines 93 to 98). \<open>parameters.get\<close> on \<open>None\<close> raises \<open>AttributeError\<close>.\<close>

definition extract_user ::
    "request_doc \<Rightarrow> error + string option \<times> string option \<times> string option" where
  "extract_user doc =
     (case Parameter doc of
        None \<Rightarrow> Inl (AttributeError ''get'')
      | Some parameters \<Rightarrow>
          (let password = attr_password parameters;
               username = attr_username parameters;
               company_id = attr_CompanyID parameters
           in case validate_user password username company_id of
                Inl e \<Rightarrow> Inl e
              | Inr _ \<Rightarrow> Inr (password, username, company_id)))"

text \<open>Destinations (lines 101 to 103).\<close>

definition extract_destinations ::
    "request_doc \<Rightarrow> error + string option \<times> string option list" where
  "extract_destinations doc =
     (case SearchType doc of
        None \<Rightarrow> Inl (AttributeError ''text'')
      | Some search_type \<Rightarrow>
          (let avail_destinations = AvailDestinations doc
           in case validate_destination search_type avail_destinations of
                Inl e \<Rightarrow> Inl e
              | Inr _ \<Rightarrow> Inr (search_type, avail_destinations)))"

text \<open>
  Dates (lines 106 to 109). Both texts are read before either is converted; \<open>strptime\<close>
  on \<open>None\<close> raises \<open>TypeError\<close>. The dates are converted and not checked.
\<close>

definition py_strptime :: "pylib \<Rightarrow> string option \<Rightarrow> error + datetime" where
  "py_strptime lib text =
     (case text of
        None \<Rightarrow> Inl (TypeError ''strptime'')
      | Some s \<Rightarrow> (case strptime lib s of Inl m \<Rightarrow> Inl (ValueError m) | Inr d \<Rightarrow> Inr d))"

definition extract_dates :: "pylib \<Rightarrow> request_doc \<Rightarrow> error + datetime \<times> datetime" where
  "extract_dates lib doc =
     (case StartDate doc of
        None \<Rightarrow> Inl (AttributeError ''text'')
      | Some start_text \<Rightarrow>
     (case EndDate doc of
        None \<Rightarrow> Inl (AttributeError ''text'')
      | Some end_text \<Rightarrow>
     (case py_strptime lib start_text of
        Inl e \<Rightarrow> Inl e
      | Inr start_date \<Rightarrow>
     (case py_strptime lib end_text of
        Inl e \<Rightarrow> Inl e
      | Inr end_date \<Rightarrow> Inr (start_date, end_date)))))"

text \<open>
  Options quota (lines 112 to 114). The text is converted when it is not empty; the
  variable \<open>options_quota\<close> of \<open>parse\<close> keeps the converted value or \<open>None\<close>,
  whatever \<open>validate_options_quota\<close> did with its own copy.
\<close>

definition extract_options_quota :: "pylib \<Rightarrow> request_doc \<Rightarrow> error + int option" where
  "extract_options_quota lib doc =
     (case optionsQuota doc of
        None \<Rightarrow> Inl (AttributeError ''text'')
      | Some text \<Rightarrow>
     (case (case text of
              None \<Rightarrow> Inr None
            | Some s \<Rightarrow>
                if s = [] then Inr None
                else (case py_int lib s of Inl m \<Rightarrow> Inl (ValueError m) | Inr q \<Rightarrow> Inr (Some q))) of
        Inl e \<Rightarrow> Inl e
      | Inr options_quota \<Rightarrow>
     (case validate_options_quota options_quota of
        Inl e \<Rightarrow> Inl e
      | Inr _ \<Rightarrow> Inr options_quota)))"

text \<open>Currency, nationality and market (lines 117 to 130).\<close>

definition extract_currency :: "request_doc \<Rightarrow> error + string" where
  "extract_currency doc =
     (case Currency doc of
        None \<Rightarrow> Inl (AttributeError ''text'')
      | Some currency \<Rightarrow>
          Inr (case currency of
                 None \<Rightarrow> default_currency
               | Some c \<Rightarrow> if c \<in> allowed_currencies then c else default_currency))"

definition extract_nationality :: "request_doc \<Rightarrow> error + string" where
  "extract_nationality doc =
     (case Nationality doc of
        None \<Rightarrow> Inl (AttributeError ''text'')
      | Some nationality \<Rightarrow>
          Inr (case nationality of
                 None \<Rightarrow> default_nationality
               | Some n \<Rightarrow> if n \<in> allowed_nationalities then n else default_nationality))"

definition extract_market :: "request_doc \<Rightarrow> string option" where
  "extract_market doc =
     (case Market doc of
        None \<Rightarrow> Some default_market
      | Some market \<Rightarrow> market)"

text \<open>
  Rooms and passengers (lines 133 to 151). The list \<open>pax_data\<close> is created once, before
  the loop over the rooms, and every passenger of every room is appended to it; the list
  \<open>pax_list\<close> that is created for each room is never used. A missing \<open>age\<close>
  attribute counts as 0. The two counts at the end of the loop body are computed and
  dropped.
\<close>

record pax_entry =
  entry_age :: int
  entry_type :: string

text \<open>\<open>int(pax.get("age", 0))\<close>.\<close>

definition pax_age :: "pylib \<Rightarrow> string option \<Rightarrow> error + int" where
  "pax_age lib pax =
     (case pax of
        None \<Rightarrow> Inr 0
      | Some a \<Rightarrow> (case py_int lib a of Inl m \<Rightarrow> Inl (ValueError m) | Inr n \<Rightarrow> Inr n))"

fun pax_loop :: "pylib \<Rightarrow> string option list \<Rightarrow> pax_entry list \<Rightarrow> error + pax_entry list" where
  "pax_loop lib [] pax_data = Inr pax_data"
| "pax_loop lib (pax # rest) pax_data =
     (case pax_age lib pax of
        Inl e \<Rightarrow> Inl e
      | Inr age \<Rightarrow>
          (let pax_type = (if age \<le> max_child_age then ''Child'' else ''Adult'')
           in pax_loop lib rest (pax_data @ [\<lparr>entry_age = age, entry_type = pax_type\<rparr>])))"

fun rooms_loop ::
    "pylib \<Rightarrow> string option list list \<Rightarrow> pax_entry list \<Rightarrow> error + pax_entry list" where
  "rooms_loop lib [] pax_data = Inr pax_data"
| "rooms_loop lib (paxes_block # rest) pax_data =
     (case pax_loop lib paxes_block pax_data of
        Inl e \<Rightarrow> Inl e
      | Inr pax_data \<Rightarrow>
          if int (length pax_data) > allowed_room_guest_count
          then Inl (ValueError (''Number of passengers in a room cannot exceed ''
                                 @ str_int allowed_room_guest_count @ ''.''))
          else (let child_count = int (length (filter (\<lambda>pax. entry_type pax = ''Child'') pax_data));
                    adult_count = int (length (filter (\<lambda>pax. entry_type pax = ''Adult'') pax_data))
                in rooms_loop lib rest pax_data))"

definition extract_rooms :: "pylib \<Rightarrow> request_doc \<Rightarrow> error + pax_entry list" where
  "extract_rooms lib doc =
     (let paxes = Paxes doc
      in case validate_room_count (int (length paxes)) of
           Inl e \<Rightarrow> Inl e
         | Inr _ \<Rightarrow> rooms_loop lib paxes [])"

subsection \<open>\<open>parse\<close>\<close>

definition parse :: "pylib \<Rightarrow> request_doc \<Rightarrow> error + avail_data" where
  "parse lib doc =
     (case extract_language doc of Inl e \<Rightarrow> Inl e | Inr language_code \<Rightarrow>
     (case extract_user doc of Inl e \<Rightarrow> Inl e | Inr (password, username, company_id) \<Rightarrow>
     (case extract_destinations doc of Inl e \<Rightarrow> Inl e | Inr (search_type, avail_destinations) \<Rightarrow>
     (case extract_dates lib doc of Inl e \<Rightarrow> Inl e | Inr (start_date, end_date) \<Rightarrow>
     (case extract_options_quota lib doc of Inl e \<Rightarrow> Inl e | Inr options_quota \<Rightarrow>
     (case extract_currency doc of Inl e \<Rightarrow> Inl e | Inr currency \<Rightarrow>
     (case extract_nationality doc of Inl e \<Rightarrow> Inl e | Inr nationality \<Rightarrow>
     (case extract_rooms lib doc of Inl e \<Rightarrow> Inl e | Inr pax_data \<Rightarrow>
        Inr \<lparr>data_language_code = language_code,
             data_options_quota = options_quota,
             data_password = password,
             data_username = username,
             data_company_id = company_id,
             data_search_type = search_type,
             data_start_date = start_date,
             data_end_date = end_date,
             data_currency = currency,
             data_nationality = nationality,
             data_market = extract_market doc,
             data_avail_destinations = avail_destinations,
             data_paxes = Paxes doc\<rparr>))))))))"

subsection \<open>Floating point\<close>

text \<open>
  A Python \<open>float\<close> is an IEEE 754 binary64 number. \<open>Finite q\<close> is the finite float with
  the exact value \<open>q\<close>; \<open>NonFinite\<close> stands for an infinity or a NaN. The sign of a zero
  is not recorded. \<open>fl q\<close> is the float nearest to the rational \<open>q\<close>, ties going to the
  even significand: the result of a float literal and of every arithmetic operation whose
  exact result is \<open>q\<close>. A result of magnitude \<open>2 ^ 1024\<close> or more overflows.
\<close>

datatype pyfloat = Finite rat | NonFinite

text \<open>\<open>up_exp x\<close> is the largest \<open>e\<close> with \<open>2 ^ e \<le> x\<close>, for \<open>1 \<le> x\<close>.\<close>

function up_exp :: "rat \<Rightarrow> int" where
  "up_exp x = (if 2 \<le> x then up_exp (x / 2) + 1 else 0)"
  by pat_completeness auto
termination
proof (relation "measure (\<lambda>x. nat \<lfloor>x\<rfloor>)")
  show "wf (measure (\<lambda>x::rat. nat \<lfloor>x\<rfloor>))" by simp
next
  fix x :: rat
  assume h: "2 \<le> x"
  have a: "1 \<le> \<lfloor>x\<rfloor>" using h by (simp add: le_floor_iff)
  have b: "x < of_int \<lfloor>x\<rfloor> + 1" by linarith
  have "(1::rat) \<le> of_int \<lfloor>x\<rfloor>" using a by linarith
  with b have "x / 2 < of_int \<lfloor>x\<rfloor>" by linarith
  then have "\<lfloor>x / 2\<rfloor> < \<lfloor>x\<rfloor>" by (simp add: floor_less_iff)
  moreover have "0 \<le> \<lfloor>x / 2\<rfloor>" using h by simp
  ultimately have "nat \<lfloor>x / 2\<rfloor> < nat \<lfloor>x\<rfloor>" by linarith
  then show "(x / 2, x) \<in> measure (\<lambda>x. nat \<lfloor>x\<rfloor>)" by (simp only: in_measure)
qed

text \<open>\<open>down_exp x\<close> is the least \<open>e\<close> with \<open>1 \<le> 2 ^ e * x\<close>, for \<open>0 < x < 1\<close>.\<close>

function down_exp :: "rat \<Rightarrow> int" where
  "down_exp x = (if 0 < x \<and> x < 1 then down_exp (2 * x) + 1 else 0)"
  by pat_completeness auto
termination
proof (relation "measure (\<lambda>x. nat \<lfloor>1 / x\<rfloor>)")
  show "wf (measure (\<lambda>x::rat. nat \<lfloor>1 / x\<rfloor>))" by simp
next
  fix x :: rat
  assume h: "0 < x \<and> x < 1"
  define y where "y = 1 / x"
  have y1: "1 \<le> y" using h by (simp add: y_def)
  have e: "1 / (2 * x) = y / 2" by (simp add: y_def)
  have a: "1 \<le> \<lfloor>y\<rfloor>" using y1 by (simp add: le_floor_iff)
  have b: "y < of_int \<lfloor>y\<rfloor> + 1" by linarith
  have "(1::rat) \<le> of_int \<lfloor>y\<rfloor>" using a by linarith
  with b have "y / 2 < of_int \<lfloor>y\<rfloor>" by linarith
  then have "\<lfloor>y / 2\<rfloor> < \<lfloor>y\<rfloor>" by (simp add: floor_less_iff)
  moreover have "0 \<le> \<lfloor>y / 2\<rfloor>" using y1 by simp
  ultimately have "nat \<lfloor>y / 2\<rfloor> < nat \<lfloor>y\<rfloor>" by linarith
  then show "(2 * x, x) \<in> measure (\<lambda>x. nat \<lfloor>1 / x\<rfloor>)"
    by (simp only: in_measure e) (simp only: y_def)
qed

declare up_exp.simps [simp del] down_exp.simps [simp del]

definition pow2 :: "int \<Rightarrow> rat" where
  "pow2 k = (if 0 \<le> k then 2 ^ nat k else 1 / 2 ^ nat (- k))"

definition round_even :: "rat \<Rightarrow> int" where
  "round_even x =
     (let f = \<lfloor>x\<rfloor>; d = x - of_int f
      in if d < 1 / 2 then f
         else if 1 / 2 < d then f + 1
         else if even f then f else f + 1)"

text \<open>
  For \<open>0 < x\<close>: the exponent is that of \<open>x\<close>, and at least \<open>- 1022\<close> (below it the floats
  are subnormal); the significand has 53 bits.
\<close>

definition fl_pos :: "rat \<Rightarrow> pyfloat" where
  "fl_pos x =
     (let e = max (if 1 \<le> x then up_exp x else - down_exp x) (- 1022);
          r = of_int (round_even (x / pow2 (e - 52))) * pow2 (e - 52)
      in if r < 2 ^ 1024 then Finite r else NonFinite)"

definition fl :: "rat \<Rightarrow> pyfloat" where
  "fl x =
     (if x = 0 then Finite 0
      else if 0 < x then fl_pos x
      else (case fl_pos (- x) of Finite r \<Rightarrow> Finite (- r) | NonFinite \<Rightarrow> NonFinite))"

text \<open>
  \<open>net_price * (1 + markup_percentage / 100)\<close>. The divisor and the summand are the
  floats 100 and 1; once an operand is not finite, so is every later result of this
  expression.
\<close>

definition calculate_selling_price :: "pyfloat \<Rightarrow> pyfloat \<Rightarrow> pyfloat" where
  "calculate_selling_price net_price markup_percentage =
     (case markup_percentage of NonFinite \<Rightarrow> NonFinite | Finite m \<Rightarrow>
     (case fl (m / 100) of NonFinite \<Rightarrow> NonFinite | Finite q \<Rightarrow>
     (case fl (1 + q) of NonFinite \<Rightarrow> NonFinite | Finite s \<Rightarrow>
     (case net_price of NonFinite \<Rightarrow> NonFinite | Finite n \<Rightarrow> fl (n * s)))))"

subsection \<open>The response\<close>

text \<open>The dictionary \<open>self.price\<close>.\<close>

definition price_net :: pyfloat where
  "price_net = fl (13242 / 100)"

definition price_currency :: string where
  "price_currency = ''USD''"

text \<open>
  One entry of the response and its \<open>price\<close> dictionary. The keys \<open>id\<close>, \<open>market\<close> and
  \<open>currency\<close> are the fields \<open>item_id\<close>, \<open>item_market\<close> and \<open>net_currency\<close>.
\<close>

record price_block =
  minimumSellingPrice :: "pyfloat option"
  net_currency :: string
  net :: pyfloat
  selling_price :: pyfloat
  selling_currency :: string
  markup :: pyfloat
  exchange_rate :: pyfloat

record response_item =
  item_id :: string
  hotelCodeSupplier :: string
  item_market :: "string option"
  price :: price_block

text \<open>
  The loop of \<open>generate_response\<close> over the destinations, with the list \<open>response\<close> and
  the counter \<open>id\<close> as its state.
\<close>

fun response_loop ::
    "avail_data \<Rightarrow> string option list \<Rightarrow> response_item list \<Rightarrow> int \<Rightarrow> response_item list" where
  "response_loop data [] response n = response"
| "response_loop data (destination # rest) response n =
     (let markup_percentage = fl (32 / 10);
          sp = calculate_selling_price price_net markup_percentage;
          item = \<lparr>item_id = ''A#'' @ str_int n,
                  hotelCodeSupplier = ''39971881'',
                  item_market = data_market data,
                  price = \<lparr>minimumSellingPrice = None,
                           net_currency = price_currency,
                           net = price_net,
                           selling_price = sp,
                           selling_currency = data_currency data,
                           markup = markup_percentage,
                           exchange_rate = Finite 1\<rparr>\<rparr>
      in response_loop data rest (response @ [item]) (n + 1))"

text \<open>
  \<open>generate_response\<close> returns \<open>json.dumps(response, indent=2)\<close>; the model returns the
  list that is serialised.
\<close>

definition generate_response :: "avail_data \<Rightarrow> response_item list" where
  "generate_response data = response_loop data (data_avail_destinations data) [] 1"

text \<open>
  The result of \<open>main\<close>: the serialised list of offers, or the serialised object
  \<open>{"error": message}\<close>. An exception other than \<open>ValueError\<close> is not caught.
\<close>

datatype main_output = Offers "response_item list" | ErrorObject string

definition main :: "pylib \<Rightarrow> request_doc \<Rightarrow> error + main_output" where
  "main lib xml_request =
     (case parse lib xml_request of
        Inr data \<Rightarrow> Inr (Offers (generate_response data))
      | Inl (ValueError m) \<Rightarrow> Inr (ErrorObject m)
      | Inl e \<Rightarrow> Inl e)"

subsection \<open>The request of the module\<close>

text \<open>
  The document \<open>xml_request\<close> at the end of the module: language \<open>en\<close>, quota 20, search
  type \<open>Multiple\<close>, three empty destinations, the stay from 14/10/2024 to 16/10/2024,
  currency \<open>USD\<close>, nationality \<open>US\<close>, no market, and two rooms with the ages 10, 3 and
  35, 2.
\<close>

definition xml_request :: request_doc where
  "xml_request =
     \<lparr>languageCode = Some (Some ''en''),
      Parameter = Some \<lparr>attr_password = Some ''XXXXXXXXXX'',
                        attr_username = Some ''YYYYYYYYY'',
                        attr_CompanyID = Some ''123456''\<rparr>,
      SearchType = Some (Some ''Multiple''),
      AvailDestinations = [None, None, None],
      StartDate = Some (Some ''14/10/2024''),
      EndDate = Some (Some ''16/10/2024''),
      optionsQuota = Some (Some ''20''),
      Currency = Some (Some ''USD''),
      Nationality = Some (Some ''US''),
      Market = None,
      Paxes = [[Some ''10'', Some ''3''], [Some ''35'', Some ''2'']]\<rparr>"

text \<open>
  The library on the texts of the examples. \<open>datetime(2024, 10, 14)\<close> is day 739173 of
  the calendar and \<open>datetime(2024, 10, 16)\<close> day 739175, where day 1 is 0001-01-01. On
  any other text this instance raises, which is all the examples need.
\<close>

definition example_int :: "string \<Rightarrow> string + int" where
  "example_int s =
     (case map_of [(''0'', 0), (''1'', 1), (''2'', 2), (''3'', 3), (''4'', 4), (''5'', 5),
                   (''6'', 6), (''10'', 10), (''20'', 20), (''35'', 35), (''50'', 50),
                   (''51'', 51)] s of
        Some n \<Rightarrow> Inr n
      | None \<Rightarrow> Inl (''invalid literal for int() with base 10: '' @ s))"

definition example_strptime :: "string \<Rightarrow> string + datetime" where
  "example_strptime s =
     (case map_of [(''14/10/2024'', timedelta_days 739172),
                   (''16/10/2024'', timedelta_days 739174)] s of
        Some d \<Rightarrow> Inr d
      | None \<Rightarrow> Inl (''time data does not match format: '' @ s))"

definition example_lib :: pylib where
  "example_lib = \<lparr>py_int = example_int, strptime = example_strptime\<rparr>"

section \<open>Properties\<close>

subsection \<open>The loops over rooms and passengers\<close>

lemma pax_loop_result:
  "pax_loop lib block acc = Inr pd \<Longrightarrow>
     \<exists>new. pd = acc @ new \<and> map (pax_age lib) block = map (\<lambda>p. Inr (entry_age p)) new
         \<and> (\<forall>p \<in> set new. entry_type p = (if entry_age p \<le> 5 then ''Child'' else ''Adult''))"
proof (induction block arbitrary: acc)
  case Nil
  then show ?case by simp
next
  case (Cons pax rest)
  from Cons.prems obtain age where a: "pax_age lib pax = Inr age"
    by (auto split: sum.splits)
  let ?e = "\<lparr>entry_age = age, entry_type = (if age \<le> max_child_age then ''Child'' else ''Adult'')\<rparr>"
  from Cons.prems a have "pax_loop lib rest (acc @ [?e]) = Inr pd"
    by (simp add: Let_def)
  from Cons.IH [OF this] obtain new where n: "pd = (acc @ [?e]) @ new"
    "map (pax_age lib) rest = map (\<lambda>p. Inr (entry_age p)) new"
    "\<forall>p \<in> set new. entry_type p = (if entry_age p \<le> 5 then ''Child'' else ''Adult'')"
    by blast
  show ?case
    apply (rule exI [of _ "?e # new"])
    using n a by (simp add: max_child_age_def)
qed

lemma rooms_loop_result:
  "rooms_loop lib blocks acc = Inr pd \<Longrightarrow>
     \<exists>new. pd = acc @ new
         \<and> map (pax_age lib) (concat blocks) = map (\<lambda>p. Inr (entry_age p)) new
         \<and> (\<forall>p \<in> set new. entry_type p = (if entry_age p \<le> 5 then ''Child'' else ''Adult''))"
proof (induction blocks arbitrary: acc)
  case Nil
  then show ?case by simp
next
  case (Cons block rest)
  from Cons.prems obtain pd1 where p1: "pax_loop lib block acc = Inr pd1"
    by (auto split: sum.splits)
  from Cons.prems p1 have r: "rooms_loop lib rest pd1 = Inr pd"
    by (simp add: Let_def split: if_splits)
  from pax_loop_result [OF p1] obtain new1 where n1: "pd1 = acc @ new1"
    "map (pax_age lib) block = map (\<lambda>p. Inr (entry_age p)) new1"
    "\<forall>p \<in> set new1. entry_type p = (if entry_age p \<le> 5 then ''Child'' else ''Adult'')"
    by blast
  from Cons.IH [OF r] obtain new2 where n2: "pd = pd1 @ new2"
    "map (pax_age lib) (concat rest) = map (\<lambda>p. Inr (entry_age p)) new2"
    "\<forall>p \<in> set new2. entry_type p = (if entry_age p \<le> 5 then ''Child'' else ''Adult'')"
    by blast
  show ?case
    apply (rule exI [of _ "new1 @ new2"])
    using n1 n2 by auto
qed

lemma pax_loop_ok:
  "(\<exists>pd. pax_loop lib block acc = Inr pd) \<longleftrightarrow> (\<forall>pax \<in> set block. \<exists>n. pax_age lib pax = Inr n)"
proof (induction block arbitrary: acc)
  case Nil
  show ?case by simp
next
  case (Cons pax rest)
  show ?case
  proof (cases "pax_age lib pax")
    case (Inl e)
    then show ?thesis by simp
  next
    case (Inr age)
    then show ?thesis using Cons.IH by (simp add: Let_def)
  qed
qed

lemma pax_loop_length:
  assumes "pax_loop lib block acc = Inr pd"
  shows "length pd = length acc + length block"
proof -
  from pax_loop_result [OF assms] obtain new where
    "pd = acc @ new" "map (pax_age lib) block = map (\<lambda>p. Inr (entry_age p)) new"
    by blast
  then show ?thesis by (metis length_append length_map)
qed

lemma rooms_loop_ok:
  "(\<exists>pd. rooms_loop lib blocks acc = Inr pd) \<longleftrightarrow>
     (\<forall>pax \<in> set (concat blocks). \<exists>n. pax_age lib pax = Inr n)
     \<and> (blocks \<noteq> [] \<longrightarrow> length acc + length (concat blocks) \<le> 5)"
proof (induction blocks arbitrary: acc)
  case Nil
  show ?case by simp
next
  case (Cons block rest)
  show ?case
  proof (cases "pax_loop lib block acc")
    case (Inl e)
    then have "\<not> (\<exists>pd. pax_loop lib block acc = Inr pd)" by simp
    then have "\<not> (\<forall>pax \<in> set block. \<exists>n. pax_age lib pax = Inr n)"
      using pax_loop_ok [of lib block acc] by blast
    then have r: "\<not> (\<forall>pax \<in> set (concat (block # rest)). \<exists>n. pax_age lib pax = Inr n)"
      by auto
    have l: "\<not> (\<exists>pd. rooms_loop lib (block # rest) acc = Inr pd)"
      using Inl by simp
    from l r show ?thesis by blast
  next
    case (Inr pd1)
    then have ok: "\<forall>pax \<in> set block. \<exists>n. pax_age lib pax = Inr n"
      using pax_loop_ok [of lib block acc] by blast
    have len: "length pd1 = length acc + length block"
      using Inr by (rule pax_loop_length)
    show ?thesis
    proof (cases "length pd1 \<le> 5")
      case False
      then show ?thesis using Inr len by (simp add: allowed_room_guest_count_def)
    next
      case True
      have "(\<exists>pd. rooms_loop lib (block # rest) acc = Inr pd)
              \<longleftrightarrow> (\<exists>pd. rooms_loop lib rest pd1 = Inr pd)"
        using Inr True by (simp add: allowed_room_guest_count_def Let_def)
      also have "\<dots> \<longleftrightarrow> (\<forall>pax \<in> set (concat rest). \<exists>n. pax_age lib pax = Inr n)
                   \<and> (rest \<noteq> [] \<longrightarrow> length pd1 + length (concat rest) \<le> 5)"
        by (rule Cons.IH)
      finally show ?thesis using ok len True by (cases rest) auto
    qed
  qed
qed

lemma extract_rooms_ok:
  "(\<exists>pd. extract_rooms lib doc = Inr pd) \<longleftrightarrow>
     int (length (Paxes doc)) \<le> allowed_room_count
     \<and> (\<forall>pax \<in> set (concat (Paxes doc)). \<exists>n. pax_age lib pax = Inr n)
     \<and> int (length (concat (Paxes doc))) \<le> allowed_room_guest_count"
proof (cases "int (length (Paxes doc)) \<le> allowed_room_count")
  case False
  then show ?thesis by (simp add: extract_rooms_def validate_room_count_def Let_def)
next
  case True
  then have "(\<exists>pd. extract_rooms lib doc = Inr pd) \<longleftrightarrow> (\<exists>pd. rooms_loop lib (Paxes doc) [] = Inr pd)"
    by (simp add: extract_rooms_def validate_room_count_def Let_def)
  also have "\<dots> \<longleftrightarrow> (\<forall>pax \<in> set (concat (Paxes doc)). \<exists>n. pax_age lib pax = Inr n)
     \<and> (Paxes doc \<noteq> [] \<longrightarrow> length ([] :: pax_entry list) + length (concat (Paxes doc)) \<le> 5)"
    by (rule rooms_loop_ok)
  also have "\<dots> \<longleftrightarrow> (\<forall>pax \<in> set (concat (Paxes doc)). \<exists>n. pax_age lib pax = Inr n)
     \<and> int (length (concat (Paxes doc))) \<le> allowed_room_guest_count"
  proof -
    have "int (length (concat (Paxes doc))) \<le> 5 \<longleftrightarrow> length (concat (Paxes doc)) \<le> 5"
      by linarith
    then show ?thesis
      by (cases "Paxes doc") (simp_all add: allowed_room_guest_count_def)
  qed
  finally show ?thesis using True by simp
qed

lemmas lib_eval = example_lib_def example_int_def example_strptime_def timedelta_days_def


text \<open>
  Claim C9. Every occupant is classified by age: the entries that the loop over the rooms
  appends to \<open>pax_data\<close> carry the ages of the \<open>Pax\<close> elements of the document, in
  document order, and an entry with an age of at most 5 has the type \<open>Child\<close>, an entry
  with an age of 6 or more the type \<open>Adult\<close>. At the boundary, the ages 5 and 6 give
  \<open>Child\<close> and \<open>Adult\<close>.
\<close>

theorem occupant_category_by_age:
  assumes "extract_rooms lib doc = Inr pax_data"
  shows "map (pax_age lib) (concat (Paxes doc)) = map (\<lambda>p. Inr (entry_age p)) pax_data
         \<and> (\<forall>p \<in> set pax_data.
               (entry_age p \<le> 5 \<longrightarrow> entry_type p = ''Child'')
               \<and> (6 \<le> entry_age p \<longrightarrow> entry_type p = ''Adult''))"
proof -
  from assms have "rooms_loop lib (Paxes doc) [] = Inr pax_data"
    by (simp add: extract_rooms_def Let_def split: sum.splits)
  from rooms_loop_result [OF this] show ?thesis by auto
qed

theorem occupant_category_by_age_witness:
  "extract_rooms example_lib (xml_request\<lparr>Paxes := [[Some ''5'', Some ''6'']]\<rparr>)
     = Inr [\<lparr>entry_age = 5, entry_type = ''Child''\<rparr>, \<lparr>entry_age = 6, entry_type = ''Adult''\<rparr>]
   \<and> map (pax_age example_lib) [Some ''5'', Some ''6''] = [Inr 5, Inr 6]
   \<and> \<not> (\<exists>p \<in> set [\<lparr>entry_age = 5, entry_type = ''Child''\<rparr>,
                      \<lparr>entry_age = 6, entry_type = ''Adult''\<rparr>].
           (entry_age p \<le> 5 \<and> entry_type p \<noteq> ''Child'')
           \<or> (6 \<le> entry_age p \<and> entry_type p \<noteq> ''Adult''))"
proof -
  have h: "extract_rooms example_lib (xml_request\<lparr>Paxes := [[Some ''5'', Some ''6'']]\<rparr>)
     = Inr [\<lparr>entry_age = 5, entry_type = ''Child''\<rparr>, \<lparr>entry_age = 6, entry_type = ''Adult''\<rparr>]"
    by (simp add: extract_rooms_def validate_room_count_def allowed_room_count_def
        allowed_room_guest_count_def max_child_age_def pax_age_def lib_eval Let_def)
  from occupant_category_by_age [OF h] h show ?thesis by simp
qed

subsection \<open>Unfolding the steps on a given document\<close>

lemmas step_eval =
  extract_language_def validate_language_code_def var_filters_cg_def str_opt_def
  extract_user_def validate_user_def truthy_def
  extract_destinations_def validate_destination_def allowed_hotel_count_def
  extract_dates_def py_strptime_def
  extract_options_quota_def validate_options_quota_def self_options_quota_def
  extract_currency_def allowed_currencies_def default_currency_def
  extract_nationality_def allowed_nationalities_def default_nationality_def
  extract_market_def default_market_def

lemmas rooms_eval =
  extract_rooms_def validate_room_count_def allowed_room_count_def
  allowed_room_guest_count_def max_child_age_def pax_age_def

subsection \<open>The accompaniment rule\<close>

text \<open>
  Claim C10. The rule that a child needs an adult in the room is not enforced. \<open>parse\<close>
  returns a request exactly when the seven steps before the rooms succeed, there are at
  most 5 rooms, every \<open>age\<close> converts, and the passengers number at most 5. None of
  these conditions looks at the types of the occupants: the counts of children and of
  adults are computed in the loop and dropped. So a request that passes the other rules
  is accepted also when a room holds children only, as in the example, where the one
  room has the ages 3 and 2.
\<close>

theorem accompaniment_not_enforced:
  "(\<exists>data. parse lib doc = Inr data) \<longleftrightarrow>
     (\<exists>l. extract_language doc = Inr l)
     \<and> (\<exists>u. extract_user doc = Inr u)
     \<and> (\<exists>d. extract_destinations doc = Inr d)
     \<and> (\<exists>t. extract_dates lib doc = Inr t)
     \<and> (\<exists>q. extract_options_quota lib doc = Inr q)
     \<and> (\<exists>c. extract_currency doc = Inr c)
     \<and> (\<exists>n. extract_nationality doc = Inr n)
     \<and> int (length (Paxes doc)) \<le> allowed_room_count
     \<and> (\<forall>pax \<in> set (concat (Paxes doc)). \<exists>n. pax_age lib pax = Inr n)
     \<and> int (length (concat (Paxes doc))) \<le> allowed_room_guest_count"
proof -
  have "(\<exists>data. parse lib doc = Inr data) \<longleftrightarrow>
     (\<exists>l. extract_language doc = Inr l)
     \<and> (\<exists>u. extract_user doc = Inr u)
     \<and> (\<exists>d. extract_destinations doc = Inr d)
     \<and> (\<exists>t. extract_dates lib doc = Inr t)
     \<and> (\<exists>q. extract_options_quota lib doc = Inr q)
     \<and> (\<exists>c. extract_currency doc = Inr c)
     \<and> (\<exists>n. extract_nationality doc = Inr n)
     \<and> (\<exists>pd. extract_rooms lib doc = Inr pd)"
    unfolding parse_def by (auto split: sum.splits prod.splits)
  then show ?thesis by (simp only: extract_rooms_ok)
qed

theorem accompaniment_not_enforced_witness:
  "(\<exists>data. parse example_lib (xml_request\<lparr>Paxes := [[Some ''3'', Some ''2'']]\<rparr>) = Inr data)
   \<and> extract_rooms example_lib (xml_request\<lparr>Paxes := [[Some ''3'', Some ''2'']]\<rparr>)
       = Inr [\<lparr>entry_age = 3, entry_type = ''Child''\<rparr>, \<lparr>entry_age = 2, entry_type = ''Child''\<rparr>]"
proof -
  let ?d = "xml_request\<lparr>Paxes := [[Some ''3'', Some ''2'']]\<rparr>"
  have r: "extract_rooms example_lib ?d
       = Inr [\<lparr>entry_age = 3, entry_type = ''Child''\<rparr>, \<lparr>entry_age = 2, entry_type = ''Child''\<rparr>]"
    by (simp add: rooms_eval lib_eval xml_request_def Let_def)
  have s: "(\<exists>l. extract_language ?d = Inr l)
     \<and> (\<exists>u. extract_user ?d = Inr u)
     \<and> (\<exists>d. extract_destinations ?d = Inr d)
     \<and> (\<exists>t. extract_dates example_lib ?d = Inr t)
     \<and> (\<exists>q. extract_options_quota example_lib ?d = Inr q)
     \<and> (\<exists>c. extract_currency ?d = Inr c)
     \<and> (\<exists>n. extract_nationality ?d = Inr n)"
    by (simp add: step_eval lib_eval xml_request_def Let_def)
  have p: "int (length (Paxes ?d)) \<le> allowed_room_count
     \<and> (\<forall>pax \<in> set (concat (Paxes ?d)). \<exists>n. pax_age example_lib pax = Inr n)
     \<and> int (length (concat (Paxes ?d))) \<le> allowed_room_guest_count"
    by (simp add: rooms_eval lib_eval)
  from s p have "\<exists>data. parse example_lib ?d = Inr data"
    using accompaniment_not_enforced [of example_lib ?d] by blast
  with r show ?thesis by blast
qed


subsection \<open>The response\<close>

lemma floor_rat_numeral_div:
  "\<lfloor>numeral a / numeral b :: rat\<rfloor> = numeral a div numeral b"
  by (metis floor_divide_of_int_eq of_int_numeral)

lemmas fl_eval =
  fl_def fl_pos_def up_exp.simps down_exp.simps round_even_def pow2_def Let_def
  floor_rat_numeral_div

lemma price_net_value: "price_net = Finite (4659114552003133 / 2 ^ 45)"
  by (simp add: price_net_def fl_eval)

lemma markup_value: "fl (32 / 10) = Finite (3602879701896397 / 2 ^ 50)"
  by (simp add: fl_eval)

lemma selling_price_value:
  "calculate_selling_price price_net (fl (32 / 10)) = Finite (4808206217667233 / 2 ^ 45)"
  by (simp add: calculate_selling_price_def price_net_value markup_value fl_eval)

lemma response_loop_eq:
  "response_loop data dests response n
     = response @ map (\<lambda>i.
         \<lparr>item_id = ''A#'' @ str_int (n + int i),
          hotelCodeSupplier = ''39971881'',
          item_market = data_market data,
          price = \<lparr>minimumSellingPrice = None,
                   net_currency = ''USD'',
                   net = Finite (4659114552003133 / 2 ^ 45),
                   selling_price = Finite (4808206217667233 / 2 ^ 45),
                   selling_currency = data_currency data,
                   markup = Finite (3602879701896397 / 2 ^ 50),
                   exchange_rate = Finite 1\<rparr>\<rparr>) [0..<length dests]"
proof (induction dests arbitrary: response n)
  case Nil
  show ?case by simp
next
  case (Cons destination rest)
  let ?f = "\<lambda>k::int.
         \<lparr>item_id = ''A#'' @ str_int k,
          hotelCodeSupplier = ''39971881'',
          item_market = data_market data,
          price = \<lparr>minimumSellingPrice = None,
                   net_currency = ''USD'',
                   net = Finite (4659114552003133 / 2 ^ 45),
                   selling_price = Finite (4808206217667233 / 2 ^ 45),
                   selling_currency = data_currency data,
                   markup = Finite (3602879701896397 / 2 ^ 50),
                   exchange_rate = Finite 1\<rparr>\<rparr>"
  have shift: "map (\<lambda>i. ?f (n + int i)) [0..<length (destination # rest)]
       = ?f n # map (\<lambda>i. ?f (n + 1 + int i)) [0..<length rest]"
    by (simp add: upt_conv_Cons map_Suc_upt [symmetric] add.commute add.left_commute del: upt_Suc)
  have step: "response_loop data (destination # rest) response n
       = response_loop data rest (response @ [?f n]) (n + 1)"
    by (simp only: response_loop.simps Let_def markup_value price_currency_def price_net_value
        selling_price_value [unfolded price_net_value markup_value])
  have "response_loop data (destination # rest) response n
       = (response @ [?f n]) @ map (\<lambda>i. ?f (n + 1 + int i)) [0..<length rest]"
    by (simp only: step Cons.IH)
  also have "\<dots> = response @ (?f n # map (\<lambda>i. ?f (n + 1 + int i)) [0..<length rest])"
    by simp
  also have "\<dots> = response @ map (\<lambda>i. ?f (n + int i)) [0..<length (destination # rest)]"
    by (simp only: shift)
  finally show ?case .
qed

lemma str_int_digits: "str_int 1 = ''1''" "str_int 2 = ''2''" "str_int 3 = ''3''" "str_int 5 = ''5''"
  by code_simp+

text \<open>
  Claim C7. \<open>generate_response\<close> gives one offer for each destination, in the order of
  the destinations, numbered \<open>A#1\<close>, \<open>A#2\<close> and so on from 1. Each offer has the
  exchange rate 1.0 and the selling price \<open>net_price * (1 + markup_percentage / 100)\<close>
  computed in floating point from the net price 132.42 and the markup 3.2: the float
  \<open>4808206217667233 / 2 ^ 45\<close>, which is 136.65743999999998 to seventeen digits, lies
  between 136.65 and 136.66, and differs from the exact product \<open>132.42 * 1.032\<close> by less
  than \<open>10 ^ -12\<close>. Without destinations the result is the empty list.
\<close>

theorem generate_response_offers:
  "generate_response data
     = map (\<lambda>i.
         \<lparr>item_id = ''A#'' @ str_int (1 + int i),
          hotelCodeSupplier = ''39971881'',
          item_market = data_market data,
          price = \<lparr>minimumSellingPrice = None,
                   net_currency = ''USD'',
                   net = Finite (4659114552003133 / 2 ^ 45),
                   selling_price = Finite (4808206217667233 / 2 ^ 45),
                   selling_currency = data_currency data,
                   markup = Finite (3602879701896397 / 2 ^ 50),
                   exchange_rate = Finite 1\<rparr>\<rparr>) [0..<length (data_avail_destinations data)]
   \<and> length (generate_response data) = length (data_avail_destinations data)
   \<and> calculate_selling_price price_net (fl (32 / 10)) = Finite (4808206217667233 / 2 ^ 45)
   \<and> (13665 / 100 :: rat) \<le> 4808206217667233 / 2 ^ 45
   \<and> (4808206217667233 / 2 ^ 45 :: rat) < 13666 / 100
   \<and> \<bar>4808206217667233 / 2 ^ 45 - 13242 / 100 * (1 + 32 / 10 / 100) :: rat\<bar> < 1 / 10 ^ 12
   \<and> map item_id (generate_response (data\<lparr>data_avail_destinations := [a, b, c]\<rparr>))
       = [''A#1'', ''A#2'', ''A#3'']
   \<and> generate_response (data\<lparr>data_avail_destinations := []\<rparr>) = []"
proof -
  have eq: "\<And>d. generate_response d
     = map (\<lambda>i.
         \<lparr>item_id = ''A#'' @ str_int (1 + int i),
          hotelCodeSupplier = ''39971881'',
          item_market = data_market d,
          price = \<lparr>minimumSellingPrice = None,
                   net_currency = ''USD'',
                   net = Finite (4659114552003133 / 2 ^ 45),
                   selling_price = Finite (4808206217667233 / 2 ^ 45),
                   selling_currency = data_currency d,
                   markup = Finite (3602879701896397 / 2 ^ 50),
                   exchange_rate = Finite 1\<rparr>\<rparr>) [0..<length (data_avail_destinations d)]"
    by (simp add: generate_response_def response_loop_eq)
  have len: "length (generate_response data) = length (data_avail_destinations data)"
    by (simp add: eq)
  have ids: "map item_id (generate_response (data\<lparr>data_avail_destinations := [a, b, c]\<rparr>))
       = [''A#1'', ''A#2'', ''A#3'']"
    by (simp add: eq upt_conv_Cons str_int_digits del: upt_Suc)
  have none: "generate_response (data\<lparr>data_avail_destinations := []\<rparr>) = []"
    by (simp add: eq)
  have v1: "(13665 / 100 :: rat) \<le> 4808206217667233 / 2 ^ 45" by simp
  have v2: "(4808206217667233 / 2 ^ 45 :: rat) < 13666 / 100" by simp
  have v3: "\<bar>4808206217667233 / 2 ^ 45 - 13242 / 100 * (1 + 32 / 10 / 100) :: rat\<bar> < 1 / 10 ^ 12"
    by simp
  from eq [of data] len selling_price_value v1 v2 v3 ids none show ?thesis
    by (intro conjI)
qed


subsection \<open>The dates\<close>

lemmas parse_eval = parse_def step_eval rooms_eval lib_eval xml_request_def Let_def


text \<open>
  Claim C1, at the request of the module. The stay from 14/10/2024 to 16/10/2024 has two
  nights, so \<open>validate_date\<close> rejects these dates whatever the current date is. But
  \<open>parse\<close> converts the two dates and never calls \<open>validate_date\<close>: it returns the
  request with both dates, and \<open>main\<close> answers with the three offers.
\<close>

theorem date_rules_not_applied:
  "(\<exists>data. parse example_lib xml_request = Inr data
       \<and> data_start_date data = timedelta_days 739172
       \<and> data_end_date data = timedelta_days 739174
       \<and> main example_lib xml_request = Inr (Offers (generate_response data))
       \<and> length (generate_response data) = 3)
   \<and> days (timedelta_days 739174 - timedelta_days 739172) = 2
   \<and> (\<forall>today. validate_date today (timedelta_days 739172) (timedelta_days 739174) \<noteq> Inr ())"
proof -
  have v: "\<forall>today. validate_date today (timedelta_days 739172) (timedelta_days 739174) \<noteq> Inr ()"
    by (simp add: validate_date_def days_def timedelta_days_def)
  have d: "days (timedelta_days 739174 - timedelta_days 739172) = 2"
    by (simp add: days_def timedelta_days_def)
  have p: "\<exists>data. parse example_lib xml_request = Inr data
       \<and> data_start_date data = timedelta_days 739172
       \<and> data_end_date data = timedelta_days 739174
       \<and> main example_lib xml_request = Inr (Offers (generate_response data))
       \<and> length (generate_response data) = 3"
    by (simp add: main_def parse_eval generate_response_def response_loop_eq)
  from p d v show ?thesis by (intro conjI)
qed

subsection \<open>The destinations\<close>

text \<open>
  Claim C2. With the search type \<open>Single\<close>, no destination and two destinations give the
  \<open>ValueError\<close> of the count rule and one destination passes; with \<open>Multiple\<close>, ten
  destinations pass. With \<open>Multiple\<close> and eleven destinations, building the message of
  the error reads the undefined name \<open>ALLOWED_HOTEL_COUNT\<close>: \<open>validate_destination\<close>
  raises \<open>NameError\<close>, which \<open>main\<close> does not catch, where the claim has a validation
  error.
\<close>

theorem eleven_destinations_name_error:
  "validate_destination (Some ''Single'') []
       = Inl (ValueError ''If SearchType is 'Single', there must be exactly one destination.'')
   \<and> validate_destination (Some ''Single'') [a] = Inr ()
   \<and> validate_destination (Some ''Single'') [a, b]
       = Inl (ValueError ''If SearchType is 'Single', there must be exactly one destination.'')
   \<and> validate_destination (Some ''Multiple'') (replicate 10 None) = Inr ()
   \<and> validate_destination (Some ''Multiple'') (replicate 11 None)
       = Inl (NameError ''ALLOWED_HOTEL_COUNT'')
   \<and> parse example_lib (xml_request\<lparr>AvailDestinations := replicate 11 None\<rparr>)
       = Inl (NameError ''ALLOWED_HOTEL_COUNT'')
   \<and> main example_lib (xml_request\<lparr>AvailDestinations := replicate 11 None\<rparr>)
       = Inl (NameError ''ALLOWED_HOTEL_COUNT'')"
  by (simp add: main_def parse_eval)

subsection \<open>Currency, nationality and market\<close>

lemma currency_nationality_resolved:
  assumes "parse lib doc = Inr data"
  shows "data_currency data \<in> allowed_currencies"
    and "data_nationality data \<in> allowed_nationalities"
  using assms
  by (auto simp: parse_def extract_currency_def extract_nationality_def
      allowed_currencies_def default_currency_def allowed_nationalities_def
      default_nationality_def split: sum.splits prod.splits option.splits if_splits)

text \<open>
  Claim C3, at the request of the module with the market \<open>XX\<close>. The currency and the
  nationality are compared with their lists, the market is not: the text of a \<open>Market\<close>
  node is taken as it is, and the list \<open>allowed_market\<close> is never read. So \<open>parse\<close>
  returns a request whose market \<open>XX\<close> is outside the list.
\<close>

theorem market_not_checked:
  "(\<exists>data. parse example_lib (xml_request\<lparr>Market := Some (Some ''XX'')\<rparr>) = Inr data
       \<and> data_market data = Some ''XX'')
   \<and> ''XX'' \<notin> allowed_market"
  by (simp add: parse_eval allowed_market_def)

subsection \<open>The options quota\<close>

lemma quota_stored_at_most_50:
  assumes "parse lib doc = Inr data" and "data_options_quota data = Some q"
  shows "q \<le> 50"
proof -
  from assms have "extract_options_quota lib doc = Inr (Some q)"
    by (auto simp: parse_def split: sum.splits prod.splits)
  then have "validate_options_quota (Some q) = Inr ()"
    by (auto simp: extract_options_quota_def split: option.splits sum.splits if_splits)
  then show ?thesis
    by (auto simp: validate_options_quota_def self_options_quota_def Let_def split: if_splits)
qed

text \<open>
  Claim C4, at the request of the module with the quota \<open>0\<close>, with an empty quota, and
  with the quotas \<open>50\<close> and \<open>51\<close>. The default 20 replaces a zero or empty quota only in
  the local variable of \<open>validate_options_quota\<close>, for the comparison with 50. The
  request that \<open>parse\<close> returns keeps what was converted: 0 for the quota \<open>0\<close> and
  \<open>None\<close> for the empty quota, not 20. The quota 50 is accepted and stored, the quota
  51 is rejected.
\<close>

theorem quota_default_not_stored:
  "validate_options_quota (Some 0) = Inr ()
   \<and> validate_options_quota None = Inr ()
   \<and> (\<exists>data. parse example_lib (xml_request\<lparr>optionsQuota := Some (Some ''0'')\<rparr>) = Inr data
       \<and> data_options_quota data = Some 0)
   \<and> (\<exists>data. parse example_lib (xml_request\<lparr>optionsQuota := Some None\<rparr>) = Inr data
       \<and> data_options_quota data = None)
   \<and> (\<exists>data. parse example_lib (xml_request\<lparr>optionsQuota := Some (Some ''50'')\<rparr>) = Inr data
       \<and> data_options_quota data = Some 50)
   \<and> parse example_lib (xml_request\<lparr>optionsQuota := Some (Some ''51'')\<rparr>)
       = Inl (ValueError ''OptionsQuota must be no greater than 50.'')"
  by (simp add: parse_eval)

subsection \<open>The language\<close>

lemma invalid_language_rejected:
  assumes "languageCode doc = Some (Some s)" and "s \<notin> var_filters_cg"
  shows "parse lib doc = Inl (ValueError (''Invalid language code: '' @ s))"
  using assms
  by (simp add: parse_def extract_language_def validate_language_code_def str_opt_def)

text \<open>
  Claim C5, at the request of the module without its \<open>languageCode\<close> node, and with the
  language \<open>it\<close>. A language outside the list is rejected with a \<open>ValueError\<close>. Without
  the node, \<open>parse\<close> reads the undefined name \<open>DEFAULT_LANGUAGE\<close> instead of the
  attribute \<open>default_language\<close>: it raises \<open>NameError\<close>, which \<open>main\<close> does not catch,
  and the default \<open>en\<close> is never applied.
\<close>

theorem absent_language_name_error:
  "parse example_lib (xml_request\<lparr>languageCode := Some (Some ''it'')\<rparr>)
       = Inl (ValueError ''Invalid language code: it'')
   \<and> parse example_lib (xml_request\<lparr>languageCode := None\<rparr>)
       = Inl (NameError ''DEFAULT_LANGUAGE'')
   \<and> main example_lib (xml_request\<lparr>languageCode := None\<rparr>)
       = Inl (NameError ''DEFAULT_LANGUAGE'')"
  by (simp add: main_def parse_eval)

subsection \<open>The occupants of a room\<close>

text \<open>
  Claim C6, at the request of the module with two rooms of three passengers each. No room
  has more than 5 occupants. The check after each room counts \<open>pax_data\<close>, which holds
  the passengers of all rooms read so far: after the second room it holds 6, and the
  request is rejected with the message about the passengers in a room.
\<close>

theorem room_check_counts_all_rooms:
  "list_all (\<lambda>room. int (length room) \<le> allowed_room_guest_count)
     [[Some ''1'', Some ''2'', Some ''3''], [Some ''35'', Some ''2'', Some ''10'']]
   \<and> main example_lib
        (xml_request\<lparr>Paxes := [[Some ''1'', Some ''2'', Some ''3''],
                               [Some ''35'', Some ''2'', Some ''10'']]\<rparr>)
       = Inr (ErrorObject ''Number of passengers in a room cannot exceed 5.'')"
  by (simp add: main_def parse_eval str_int_digits)


subsection \<open>Missing nodes\<close>

lemma main_propagates:
  "parse lib doc = Inl (AttributeError a) \<Longrightarrow> main lib doc = Inl (AttributeError a)"
  by (simp add: main_def)


text \<open>
  Claim C8, amended. Without one of the nodes \<open>Parameter\<close>, \<open>SearchType\<close>,
  \<open>StartDate\<close>, \<open>EndDate\<close>, \<open>optionsQuota\<close>, \<open>Currency\<close> or \<open>Nationality\<close>, \<open>parse\<close>
  returns no request: it raises. When the steps before the read of the missing node
  succeed, the exception is the \<open>AttributeError\<close> of that read, and \<open>main\<close>, which
  catches \<open>ValueError\<close> only, lets it through. When an earlier step raises, \<open>parse\<close>
  ends with the exception of the first step that raises, whatever is missing later; if
  that is a \<open>ValueError\<close>, \<open>main\<close> returns the error object with its message.
\<close>

theorem missing_node_attribute_error:
  "(Parameter doc = None \<or> SearchType doc = None \<or> StartDate doc = None \<or> EndDate doc = None
      \<or> optionsQuota doc = None \<or> Currency doc = None \<or> Nationality doc = None
     \<longrightarrow> (\<exists>e. parse lib doc = Inl e))
   \<and> (extract_language doc = Inr l \<and> Parameter doc = None
     \<longrightarrow> parse lib doc = Inl (AttributeError ''get'')
         \<and> main lib doc = Inl (AttributeError ''get''))
   \<and> (extract_language doc = Inr l \<and> extract_user doc = Inr u \<and> SearchType doc = None
     \<longrightarrow> parse lib doc = Inl (AttributeError ''text'')
         \<and> main lib doc = Inl (AttributeError ''text''))
   \<and> (extract_language doc = Inr l \<and> extract_user doc = Inr u
        \<and> extract_destinations doc = Inr d \<and> (StartDate doc = None \<or> EndDate doc = None)
     \<longrightarrow> parse lib doc = Inl (AttributeError ''text'')
         \<and> main lib doc = Inl (AttributeError ''text''))
   \<and> (extract_language doc = Inr l \<and> extract_user doc = Inr u
        \<and> extract_destinations doc = Inr d \<and> extract_dates lib doc = Inr t
        \<and> optionsQuota doc = None
     \<longrightarrow> parse lib doc = Inl (AttributeError ''text'')
         \<and> main lib doc = Inl (AttributeError ''text''))
   \<and> (extract_language doc = Inr l \<and> extract_user doc = Inr u
        \<and> extract_destinations doc = Inr d \<and> extract_dates lib doc = Inr t
        \<and> extract_options_quota lib doc = Inr q \<and> Currency doc = None
     \<longrightarrow> parse lib doc = Inl (AttributeError ''text'')
         \<and> main lib doc = Inl (AttributeError ''text''))
   \<and> (extract_language doc = Inr l \<and> extract_user doc = Inr u
        \<and> extract_destinations doc = Inr d \<and> extract_dates lib doc = Inr t
        \<and> extract_options_quota lib doc = Inr q \<and> extract_currency doc = Inr c
        \<and> Nationality doc = None
     \<longrightarrow> parse lib doc = Inl (AttributeError ''text'')
         \<and> main lib doc = Inl (AttributeError ''text''))
   \<and> (extract_language doc = Inl e \<longrightarrow> parse lib doc = Inl e)
   \<and> (extract_language doc = Inr l \<and> extract_user doc = Inl e \<longrightarrow> parse lib doc = Inl e)
   \<and> (extract_language doc = Inr l \<and> extract_user doc = Inr u
        \<and> extract_destinations doc = Inl e
     \<longrightarrow> parse lib doc = Inl e)
   \<and> (extract_language doc = Inr l \<and> extract_user doc = Inr u
        \<and> extract_destinations doc = Inr d \<and> extract_dates lib doc = Inl e
     \<longrightarrow> parse lib doc = Inl e)
   \<and> (extract_language doc = Inr l \<and> extract_user doc = Inr u
        \<and> extract_destinations doc = Inr d \<and> extract_dates lib doc = Inr t
        \<and> extract_options_quota lib doc = Inl e
     \<longrightarrow> parse lib doc = Inl e)
   \<and> (extract_language doc = Inr l \<and> extract_user doc = Inr u
        \<and> extract_destinations doc = Inr d \<and> extract_dates lib doc = Inr t
        \<and> extract_options_quota lib doc = Inr q \<and> extract_currency doc = Inl e
     \<longrightarrow> parse lib doc = Inl e)
   \<and> (extract_language doc = Inr l \<and> extract_user doc = Inr u
        \<and> extract_destinations doc = Inr d \<and> extract_dates lib doc = Inr t
        \<and> extract_options_quota lib doc = Inr q \<and> extract_currency doc = Inr c
        \<and> extract_nationality doc = Inl e
     \<longrightarrow> parse lib doc = Inl e)
   \<and> (extract_language doc = Inr l \<and> extract_user doc = Inr u
        \<and> extract_destinations doc = Inr d \<and> extract_dates lib doc = Inr t
        \<and> extract_options_quota lib doc = Inr q \<and> extract_currency doc = Inr c
        \<and> extract_nationality doc = Inr n \<and> extract_rooms lib doc = Inl e
     \<longrightarrow> parse lib doc = Inl e)
   \<and> (parse lib doc = Inl (ValueError m) \<longrightarrow> main lib doc = Inr (ErrorObject m))"
proof -
  have user: "Parameter doc = None \<Longrightarrow> extract_user doc = Inl (AttributeError ''get'')"
    by (simp add: extract_user_def)
  have dest: "SearchType doc = None \<Longrightarrow> extract_destinations doc = Inl (AttributeError ''text'')"
    by (simp add: extract_destinations_def)
  have dates: "StartDate doc = None \<or> EndDate doc = None
      \<Longrightarrow> extract_dates lib doc = Inl (AttributeError ''text'')"
    by (auto simp: extract_dates_def split: option.splits)
  have quota: "optionsQuota doc = None
      \<Longrightarrow> extract_options_quota lib doc = Inl (AttributeError ''text'')"
    by (simp add: extract_options_quota_def)
  have cur: "Currency doc = None \<Longrightarrow> extract_currency doc = Inl (AttributeError ''text'')"
    by (simp add: extract_currency_def)
  have nat: "Nationality doc = None \<Longrightarrow> extract_nationality doc = Inl (AttributeError ''text'')"
    by (simp add: extract_nationality_def)
  have any: "Parameter doc = None \<or> SearchType doc = None \<or> StartDate doc = None
      \<or> EndDate doc = None \<or> optionsQuota doc = None \<or> Currency doc = None
      \<or> Nationality doc = None \<longrightarrow> (\<exists>e. parse lib doc = Inl e)"
    using user dest dates quota cur nat
    by (auto simp: parse_def split: sum.splits prod.splits)
  have c1: "extract_language doc = Inr l \<and> Parameter doc = None
     \<longrightarrow> parse lib doc = Inl (AttributeError ''get'')"
    using user by (simp add: parse_def)
  have c2: "extract_language doc = Inr l \<and> extract_user doc = Inr u \<and> SearchType doc = None
     \<longrightarrow> parse lib doc = Inl (AttributeError ''text'')"
    using dest by (simp add: parse_def split: prod.splits)
  have c3: "extract_language doc = Inr l \<and> extract_user doc = Inr u
        \<and> extract_destinations doc = Inr d \<and> (StartDate doc = None \<or> EndDate doc = None)
     \<longrightarrow> parse lib doc = Inl (AttributeError ''text'')"
    using dates by (auto simp: parse_def split: prod.splits)
  have c4: "extract_language doc = Inr l \<and> extract_user doc = Inr u
        \<and> extract_destinations doc = Inr d \<and> extract_dates lib doc = Inr t
        \<and> optionsQuota doc = None
     \<longrightarrow> parse lib doc = Inl (AttributeError ''text'')"
    using quota by (simp add: parse_def split: prod.splits)
  have c5: "extract_language doc = Inr l \<and> extract_user doc = Inr u
        \<and> extract_destinations doc = Inr d \<and> extract_dates lib doc = Inr t
        \<and> extract_options_quota lib doc = Inr q \<and> Currency doc = None
     \<longrightarrow> parse lib doc = Inl (AttributeError ''text'')"
    using cur by (simp add: parse_def split: prod.splits)
  have c6: "extract_language doc = Inr l \<and> extract_user doc = Inr u
        \<and> extract_destinations doc = Inr d \<and> extract_dates lib doc = Inr t
        \<and> extract_options_quota lib doc = Inr q \<and> extract_currency doc = Inr c
        \<and> Nationality doc = None
     \<longrightarrow> parse lib doc = Inl (AttributeError ''text'')"
    using nat by (simp add: parse_def split: prod.splits)
  have first: "(extract_language doc = Inl e \<longrightarrow> parse lib doc = Inl e)
   \<and> (extract_language doc = Inr l \<and> extract_user doc = Inl e \<longrightarrow> parse lib doc = Inl e)
   \<and> (extract_language doc = Inr l \<and> extract_user doc = Inr u
        \<and> extract_destinations doc = Inl e
     \<longrightarrow> parse lib doc = Inl e)
   \<and> (extract_language doc = Inr l \<and> extract_user doc = Inr u
        \<and> extract_destinations doc = Inr d \<and> extract_dates lib doc = Inl e
     \<longrightarrow> parse lib doc = Inl e)
   \<and> (extract_language doc = Inr l \<and> extract_user doc = Inr u
        \<and> extract_destinations doc = Inr d \<and> extract_dates lib doc = Inr t
        \<and> extract_options_quota lib doc = Inl e
     \<longrightarrow> parse lib doc = Inl e)
   \<and> (extract_language doc = Inr l \<and> extract_user doc = Inr u
        \<and> extract_destinations doc = Inr d \<and> extract_dates lib doc = Inr t
        \<and> extract_options_quota lib doc = Inr q \<and> extract_currency doc = Inl e
     \<longrightarrow> parse lib doc = Inl e)
   \<and> (extract_language doc = Inr l \<and> extract_user doc = Inr u
        \<and> extract_destinations doc = Inr d \<and> extract_dates lib doc = Inr t
        \<and> extract_options_quota lib doc = Inr q \<and> extract_currency doc = Inr c
        \<and> extract_nationality doc = Inl e
     \<longrightarrow> parse lib doc = Inl e)
   \<and> (extract_language doc = Inr l \<and> extract_user doc = Inr u
        \<and> extract_destinations doc = Inr d \<and> extract_dates lib doc = Inr t
        \<and> extract_options_quota lib doc = Inr q \<and> extract_currency doc = Inr c
        \<and> extract_nationality doc = Inr n \<and> extract_rooms lib doc = Inl e
     \<longrightarrow> parse lib doc = Inl e)"
    by (simp add: parse_def split: prod.splits)
  have caught: "parse lib doc = Inl (ValueError m) \<longrightarrow> main lib doc = Inr (ErrorObject m)"
    by (simp add: main_def)
  have missing: "(Parameter doc = None \<or> SearchType doc = None \<or> StartDate doc = None
      \<or> EndDate doc = None \<or> optionsQuota doc = None \<or> Currency doc = None
      \<or> Nationality doc = None \<longrightarrow> (\<exists>e. parse lib doc = Inl e))
   \<and> (extract_language doc = Inr l \<and> Parameter doc = None
     \<longrightarrow> parse lib doc = Inl (AttributeError ''get'')
         \<and> main lib doc = Inl (AttributeError ''get''))
   \<and> (extract_language doc = Inr l \<and> extract_user doc = Inr u \<and> SearchType doc = None
     \<longrightarrow> parse lib doc = Inl (AttributeError ''text'')
         \<and> main lib doc = Inl (AttributeError ''text''))
   \<and> (extract_language doc = Inr l \<and> extract_user doc = Inr u
        \<and> extract_destinations doc = Inr d \<and> (StartDate doc = None \<or> EndDate doc = None)
     \<longrightarrow> parse lib doc = Inl (AttributeError ''text'')
         \<and> main lib doc = Inl (AttributeError ''text''))
   \<and> (extract_language doc = Inr l \<and> extract_user doc = Inr u
        \<and> extract_destinations doc = Inr d \<and> extract_dates lib doc = Inr t
        \<and> optionsQuota doc = None
     \<longrightarrow> parse lib doc = Inl (AttributeError ''text'')
         \<and> main lib doc = Inl (AttributeError ''text''))
   \<and> (extract_language doc = Inr l \<and> extract_user doc = Inr u
        \<and> extract_destinations doc = Inr d \<and> extract_dates lib doc = Inr t
        \<and> extract_options_quota lib doc = Inr q \<and> Currency doc = None
     \<longrightarrow> parse lib doc = Inl (AttributeError ''text'')
         \<and> main lib doc = Inl (AttributeError ''text''))
   \<and> (extract_language doc = Inr l \<and> extract_user doc = Inr u
        \<and> extract_destinations doc = Inr d \<and> extract_dates lib doc = Inr t
        \<and> extract_options_quota lib doc = Inr q \<and> extract_currency doc = Inr c
        \<and> Nationality doc = None
     \<longrightarrow> parse lib doc = Inl (AttributeError ''text'')
         \<and> main lib doc = Inl (AttributeError ''text''))"
    using any c1 c2 c3 c4 c5 c6 main_propagates [of lib doc] by blast
  show ?thesis
    using conjI [OF missing conjI [OF first caught]] by (simp only: conj_assoc)
qed



theorem missing_node_attribute_error_witness:
  "main example_lib (xml_request\<lparr>Parameter := None\<rparr>) = Inl (AttributeError ''get'')
   \<and> main example_lib (xml_request\<lparr>SearchType := None\<rparr>) = Inl (AttributeError ''text'')
   \<and> main example_lib (xml_request\<lparr>StartDate := None\<rparr>) = Inl (AttributeError ''text'')
   \<and> main example_lib (xml_request\<lparr>EndDate := None\<rparr>) = Inl (AttributeError ''text'')
   \<and> main example_lib (xml_request\<lparr>optionsQuota := None\<rparr>) = Inl (AttributeError ''text'')
   \<and> main example_lib (xml_request\<lparr>Currency := None\<rparr>) = Inl (AttributeError ''text'')
   \<and> main example_lib (xml_request\<lparr>Nationality := None\<rparr>) = Inl (AttributeError ''text'')
   \<and> (\<exists>e. parse example_lib (xml_request\<lparr>Currency := None, Nationality := None\<rparr>) = Inl e)
   \<and> parse example_lib (xml_request\<lparr>languageCode := Some (Some ''xx''), Parameter := None\<rparr>)
       = Inl (ValueError ''Invalid language code: xx'')
   \<and> main example_lib (xml_request\<lparr>languageCode := Some (Some ''xx''), Parameter := None\<rparr>)
       = Inr (ErrorObject ''Invalid language code: xx'')
   \<and> parse example_lib
        (xml_request\<lparr>Parameter := Some \<lparr>attr_password = None, attr_username = Some ''Y'',
                                            attr_CompanyID = Some ''1''\<rparr>,
                      SearchType := None\<rparr>)
       = Inl (ValueError ''Missing required parameters: password, username, or CompanyID.'')
   \<and> parse example_lib (xml_request\<lparr>SearchType := Some (Some ''Single''), StartDate := None\<rparr>)
       = Inl (ValueError ''If SearchType is 'Single', there must be exactly one destination.'')
   \<and> parse example_lib (xml_request\<lparr>StartDate := Some (Some ''x''), optionsQuota := None\<rparr>)
       = Inl (ValueError ''time data does not match format: x'')
   \<and> parse example_lib (xml_request\<lparr>optionsQuota := Some (Some ''51''), Currency := None\<rparr>)
       = Inl (ValueError ''OptionsQuota must be no greater than 50.'')
   \<and> parse example_lib (xml_request\<lparr>Currency := None, Nationality := None\<rparr>)
       = Inl (AttributeError ''text'')
   \<and> parse example_lib (xml_request\<lparr>Nationality := None, Paxes := [[], [], [], [], [], []]\<rparr>)
       = Inl (AttributeError ''text'')
   \<and> parse example_lib (xml_request\<lparr>Paxes := [[], [], [], [], [], []]\<rparr>)
       = Inl (ValueError ''Number of rooms cannot exceed 5.'')"
proof -
  let ?l = "Some ''en''"
  let ?u = "(Some ''XXXXXXXXXX'', Some ''YYYYYYYYY'', Some ''123456'')"
  let ?d = "(Some ''Multiple'', [None, None, None :: string option])"
  let ?t = "(timedelta_days 739172, timedelta_days 739174)"
  let ?q = "Some (20 :: int)"
  let ?c = "''USD''"
  have w1: "main example_lib (xml_request\<lparr>Parameter := None\<rparr>) = Inl (AttributeError ''get'')"
    using missing_node_attribute_error
      [where doc = "xml_request\<lparr>Parameter := None\<rparr>" and lib = example_lib and l = ?l]
    by (simp add: step_eval xml_request_def)
  have w2: "main example_lib (xml_request\<lparr>SearchType := None\<rparr>) = Inl (AttributeError ''text'')"
    using missing_node_attribute_error
      [where doc = "xml_request\<lparr>SearchType := None\<rparr>" and lib = example_lib and l = ?l
         and u = ?u]
    by (simp add: step_eval xml_request_def)
  have w3: "main example_lib (xml_request\<lparr>StartDate := None\<rparr>) = Inl (AttributeError ''text'')"
    using missing_node_attribute_error
      [where doc = "xml_request\<lparr>StartDate := None\<rparr>" and lib = example_lib and l = ?l
         and u = ?u and d = ?d]
    by (simp add: step_eval xml_request_def)
  have w4: "main example_lib (xml_request\<lparr>EndDate := None\<rparr>) = Inl (AttributeError ''text'')"
    using missing_node_attribute_error
      [where doc = "xml_request\<lparr>EndDate := None\<rparr>" and lib = example_lib and l = ?l
         and u = ?u and d = ?d]
    by (simp add: step_eval xml_request_def)
  have w5: "main example_lib (xml_request\<lparr>optionsQuota := None\<rparr>) = Inl (AttributeError ''text'')"
    using missing_node_attribute_error
      [where doc = "xml_request\<lparr>optionsQuota := None\<rparr>" and lib = example_lib and l = ?l
         and u = ?u and d = ?d and t = ?t]
    by (simp add: step_eval lib_eval xml_request_def)
  have w6: "main example_lib (xml_request\<lparr>Currency := None\<rparr>) = Inl (AttributeError ''text'')"
    using missing_node_attribute_error
      [where doc = "xml_request\<lparr>Currency := None\<rparr>" and lib = example_lib and l = ?l
         and u = ?u and d = ?d and t = ?t and q = ?q]
    by (simp add: step_eval lib_eval xml_request_def)
  have w7: "main example_lib (xml_request\<lparr>Nationality := None\<rparr>) = Inl (AttributeError ''text'')"
    using missing_node_attribute_error
      [where doc = "xml_request\<lparr>Nationality := None\<rparr>" and lib = example_lib and l = ?l
         and u = ?u and d = ?d and t = ?t and q = ?q and c = ?c]
    by (simp add: step_eval lib_eval xml_request_def)
  have w8: "\<exists>e. parse example_lib (xml_request\<lparr>Currency := None, Nationality := None\<rparr>) = Inl e"
    using missing_node_attribute_error
      [where doc = "xml_request\<lparr>Currency := None, Nationality := None\<rparr>" and lib = example_lib]
    by simp
  let ?n = "''US''"
  have f1: "parse example_lib (xml_request\<lparr>languageCode := Some (Some ''xx''), Parameter := None\<rparr>)
       = Inl (ValueError ''Invalid language code: xx'')"
    using missing_node_attribute_error
      [where doc = "xml_request\<lparr>languageCode := Some (Some ''xx''), Parameter := None\<rparr>"
         and lib = example_lib and e = "ValueError ''Invalid language code: xx''"]
    by (simp add: step_eval xml_request_def)
  have f1m: "main example_lib (xml_request\<lparr>languageCode := Some (Some ''xx''), Parameter := None\<rparr>)
       = Inr (ErrorObject ''Invalid language code: xx'')"
    using f1 missing_node_attribute_error
      [where doc = "xml_request\<lparr>languageCode := Some (Some ''xx''), Parameter := None\<rparr>"
         and lib = example_lib and m = "''Invalid language code: xx''"]
    by simp
  have f2: "parse example_lib
        (xml_request\<lparr>Parameter := Some \<lparr>attr_password = None, attr_username = Some ''Y'',
                                            attr_CompanyID = Some ''1''\<rparr>,
                      SearchType := None\<rparr>)
       = Inl (ValueError ''Missing required parameters: password, username, or CompanyID.'')"
    using missing_node_attribute_error
      [where doc = "xml_request\<lparr>Parameter := Some \<lparr>attr_password = None,
                        attr_username = Some ''Y'', attr_CompanyID = Some ''1''\<rparr>,
                      SearchType := None\<rparr>"
         and lib = example_lib and l = ?l
         and e = "ValueError ''Missing required parameters: password, username, or CompanyID.''"]
    by (simp add: step_eval xml_request_def)
  have f3: "parse example_lib (xml_request\<lparr>SearchType := Some (Some ''Single''), StartDate := None\<rparr>)
       = Inl (ValueError ''If SearchType is 'Single', there must be exactly one destination.'')"
    using missing_node_attribute_error
      [where doc = "xml_request\<lparr>SearchType := Some (Some ''Single''), StartDate := None\<rparr>"
         and lib = example_lib and l = ?l and u = ?u
         and e = "ValueError ''If SearchType is 'Single', there must be exactly one destination.''"]
    by (simp add: step_eval xml_request_def)
  have f4: "parse example_lib (xml_request\<lparr>StartDate := Some (Some ''x''), optionsQuota := None\<rparr>)
       = Inl (ValueError ''time data does not match format: x'')"
    using missing_node_attribute_error
      [where doc = "xml_request\<lparr>StartDate := Some (Some ''x''), optionsQuota := None\<rparr>"
         and lib = example_lib and l = ?l and u = ?u and d = ?d
         and e = "ValueError ''time data does not match format: x''"]
    by (simp add: step_eval lib_eval xml_request_def)
  have f5: "parse example_lib (xml_request\<lparr>optionsQuota := Some (Some ''51''), Currency := None\<rparr>)
       = Inl (ValueError ''OptionsQuota must be no greater than 50.'')"
    using missing_node_attribute_error
      [where doc = "xml_request\<lparr>optionsQuota := Some (Some ''51''), Currency := None\<rparr>"
         and lib = example_lib and l = ?l and u = ?u and d = ?d and t = ?t
         and e = "ValueError ''OptionsQuota must be no greater than 50.''"]
    by (simp add: step_eval lib_eval xml_request_def Let_def)
  have f6: "parse example_lib (xml_request\<lparr>Currency := None, Nationality := None\<rparr>)
       = Inl (AttributeError ''text'')"
    using missing_node_attribute_error
      [where doc = "xml_request\<lparr>Currency := None, Nationality := None\<rparr>"
         and lib = example_lib and l = ?l and u = ?u and d = ?d and t = ?t and q = ?q
         and e = "AttributeError ''text''"]
    by (simp add: step_eval lib_eval xml_request_def Let_def)
  have f7: "parse example_lib (xml_request\<lparr>Nationality := None, Paxes := [[], [], [], [], [], []]\<rparr>)
       = Inl (AttributeError ''text'')"
    using missing_node_attribute_error
      [where doc = "xml_request\<lparr>Nationality := None, Paxes := [[], [], [], [], [], []]\<rparr>"
         and lib = example_lib and l = ?l and u = ?u and d = ?d and t = ?t and q = ?q
         and c = ?c and e = "AttributeError ''text''"]
    by (simp add: step_eval lib_eval xml_request_def Let_def)
  have f8: "parse example_lib (xml_request\<lparr>Paxes := [[], [], [], [], [], []]\<rparr>)
       = Inl (ValueError ''Number of rooms cannot exceed 5.'')"
    using missing_node_attribute_error
      [where doc = "xml_request\<lparr>Paxes := [[], [], [], [], [], []]\<rparr>"
         and lib = example_lib and l = ?l and u = ?u and d = ?d and t = ?t and q = ?q
         and c = ?c and n = ?n and e = "ValueError ''Number of rooms cannot exceed 5.''"]
    by (simp add: step_eval rooms_eval lib_eval xml_request_def Let_def str_int_digits)
  from w1 w2 w3 w4 w5 w6 w7 w8 f1 f1m f2 f3 f4 f5 f6 f7 f8 show ?thesis by (intro conjI)
qed

text \<open>
  Claim C8 as it was stated fails when an earlier step raises first: in the request of
  the module without its \<open>Currency\<close> node and with the language \<open>xx\<close>, the language
  check raises \<open>ValueError\<close>, and \<open>main\<close> returns the error object.
\<close>

theorem missing_currency_counterexample:
  "Currency (xml_request\<lparr>languageCode := Some (Some ''xx''), Currency := None\<rparr>) = None
   \<and> parse example_lib (xml_request\<lparr>languageCode := Some (Some ''xx''), Currency := None\<rparr>)
       = Inl (ValueError ''Invalid language code: xx'')
   \<and> main example_lib (xml_request\<lparr>languageCode := Some (Some ''xx''), Currency := None\<rparr>)
       = Inr (ErrorObject ''Invalid language code: xx'')"
  by (simp add: main_def parse_eval)


end
